theory Spec2Isabelle
  imports Complex_Main
begin

section \<open>JavaScript numbers\<close>

text \<open>
  A JavaScript number is modelled as a finite real or one of the three non-finite
  values. Finite arithmetic is exact (no binary rounding, no overflow) and the two
  signed zeros are identified; everything else follows the language: \<open>NaN\<close> is
  contagious and fails every comparison, division by zero yields an infinity or
  \<open>NaN\<close>.
\<close>

datatype jsnum = NaN | Fin real | PInf | NInf

fun js_neg :: "jsnum \<Rightarrow> jsnum" where
  "js_neg NaN = NaN"
| "js_neg (Fin a) = Fin (- a)"
| "js_neg PInf = NInf"
| "js_neg NInf = PInf"

fun js_add :: "jsnum \<Rightarrow> jsnum \<Rightarrow> jsnum" where
  "js_add NaN _ = NaN"
| "js_add _ NaN = NaN"
| "js_add (Fin a) (Fin b) = Fin (a + b)"
| "js_add PInf NInf = NaN"
| "js_add NInf PInf = NaN"
| "js_add PInf _ = PInf"
| "js_add _ PInf = PInf"
| "js_add NInf _ = NInf"
| "js_add _ NInf = NInf"

definition js_sub :: "jsnum \<Rightarrow> jsnum \<Rightarrow> jsnum" where
  "js_sub a b = js_add a (js_neg b)"

fun js_mul :: "jsnum \<Rightarrow> jsnum \<Rightarrow> jsnum" where
  "js_mul NaN _ = NaN"
| "js_mul _ NaN = NaN"
| "js_mul (Fin a) (Fin b) = Fin (a * b)"
| "js_mul (Fin a) PInf = (if a = 0 then NaN else if 0 < a then PInf else NInf)"
| "js_mul (Fin a) NInf = (if a = 0 then NaN else if 0 < a then NInf else PInf)"
| "js_mul PInf (Fin b) = (if b = 0 then NaN else if 0 < b then PInf else NInf)"
| "js_mul NInf (Fin b) = (if b = 0 then NaN else if 0 < b then NInf else PInf)"
| "js_mul PInf PInf = PInf"
| "js_mul PInf NInf = NInf"
| "js_mul NInf PInf = NInf"
| "js_mul NInf NInf = PInf"

fun js_div :: "jsnum \<Rightarrow> jsnum \<Rightarrow> jsnum" where
  "js_div NaN _ = NaN"
| "js_div _ NaN = NaN"
| "js_div (Fin a) (Fin b) =
     (if b = 0 then (if a = 0 then NaN else if 0 < a then PInf else NInf)
      else Fin (a / b))"
| "js_div (Fin a) PInf = Fin 0"
| "js_div (Fin a) NInf = Fin 0"
| "js_div PInf (Fin b) = (if 0 \<le> b then PInf else NInf)"
| "js_div NInf (Fin b) = (if 0 \<le> b then NInf else PInf)"
| "js_div PInf PInf = NaN"
| "js_div PInf NInf = NaN"
| "js_div NInf PInf = NaN"
| "js_div NInf NInf = NaN"

text \<open>The relational operators \<open><=\<close> and \<open>>=\<close>.\<close>

fun js_le :: "jsnum \<Rightarrow> jsnum \<Rightarrow> bool" where
  "js_le NaN _ = False"
| "js_le _ NaN = False"
| "js_le (Fin a) (Fin b) = (a \<le> b)"
| "js_le NInf _ = True"
| "js_le _ PInf = True"
| "js_le PInf _ = False"
| "js_le _ NInf = False"

definition js_ge :: "jsnum \<Rightarrow> jsnum \<Rightarrow> bool" where
  "js_ge a b = js_le b a"

text \<open>
  \<open>Math.round\<close> rounds to the nearest integer, a tie towards plus infinity; the
  non-finite values are returned unchanged.
\<close>

fun Math_round :: "jsnum \<Rightarrow> jsnum" where
  "Math_round (Fin a) = Fin (of_int \<lfloor>a + 1 / 2\<rfloor>)"
| "Math_round x = x"

text \<open>Truthiness of a number: \<open>0\<close> and \<open>NaN\<close> are falsy.\<close>

fun js_truthy :: "jsnum \<Rightarrow> bool" where
  "js_truthy NaN = False"
| "js_truthy (Fin a) = (a \<noteq> 0)"
| "js_truthy _ = True"

text \<open>
  A value that may be \<open>null\<close> is a \<open>jsnum option\<close>; in a numeric context \<open>null\<close>
  converts to \<open>0\<close>.
\<close>

fun ToNumber :: "jsnum option \<Rightarrow> jsnum" where
  "ToNumber None = Fin 0"
| "ToNumber (Some x) = x"

section \<open>Percentile tables (server.js)\<close>

text \<open>A breakpoint \<open>{ value: v, pct: p }\<close> of a historical percentile table.\<close>

record breakpoint =
  bp_value :: real
  pct :: int

datatype js_error = TypeError string | Error string

fun message :: "js_error \<Rightarrow> string" where
  "message (TypeError m) = m"
| "message (Error m) = m"

definition bp :: "real \<Rightarrow> int \<Rightarrow> breakpoint" where
  "bp v p = \<lparr> bp_value = v, pct = p \<rparr>"

text \<open>
  The \<open>for\<close> loop of \<open>interpolatePercentile\<close>, from index \<open>i\<close> on; running off the
  end of the table is the final \<open>return 100\<close>.
\<close>

function interpolate_loop :: "jsnum \<Rightarrow> breakpoint list \<Rightarrow> nat \<Rightarrow> jsnum" where
  "interpolate_loop v percentiles i =
     (if i < length percentiles then
        (if js_le v (Fin (bp_value (percentiles ! i))) then
           (let prev = percentiles ! (i - 1);
                curr = percentiles ! i;
                ratio = js_div (js_sub v (Fin (bp_value prev)))
                               (js_sub (Fin (bp_value curr)) (Fin (bp_value prev)))
            in Math_round (js_add (Fin (of_int (pct prev)))
                 (js_mul ratio (js_sub (Fin (of_int (pct curr))) (Fin (of_int (pct prev)))))))
         else interpolate_loop v percentiles (i + 1))
      else Fin 100)"
  by pat_completeness auto
termination
  by (relation "measure (\<lambda>(v, percentiles, i). length percentiles - i)") auto

declare interpolate_loop.simps [simp del]

text \<open>
  \<open>interpolatePercentile(value, percentiles)\<close>. Reading \<open>percentiles[0].value\<close> of
  an empty table throws a \<open>TypeError\<close>.
\<close>

definition interpolatePercentile :: "jsnum \<Rightarrow> breakpoint list \<Rightarrow> js_error + jsnum" where
  "interpolatePercentile v percentiles =
     (if percentiles = [] then
        Inl (TypeError ''Cannot read properties of undefined'')
      else if js_le v (Fin (bp_value (percentiles ! 0))) then
        Inr (Fin (of_int (pct (percentiles ! 0))))
      else if js_ge v (Fin (bp_value (percentiles ! (length percentiles - 1)))) then
        Inr (Fin 100)
      else Inr (interpolate_loop v percentiles 1))"

definition creditSpread_percentiles :: "breakpoint list" where
  "creditSpread_percentiles =
     [bp 1.16 0, bp 1.50 5, bp 1.69 19, bp 1.76 25, bp 2.15 50, bp 2.67 75,
      bp 3.00 85, bp 3.50 95, bp 6.16 100]"

definition cape_percentiles :: "breakpoint list" where
  "cape_percentiles =
     [bp 6.6 0, bp 10.0 10, bp 15.0 25, bp 20.5 50, bp 25.0 75, bp 30.0 90,
      bp 35.0 95, bp 40.0 98, bp 48.1 100]"

definition buffett_percentiles :: "breakpoint list" where
  "buffett_percentiles =
     [bp 35 0, bp 50 15, bp 70 35, bp 85 50, bp 110 70, bp 140 85,
      bp 175 93, bp 200 97, bp 250 100]"

text \<open>The three \<open>HISTORICAL.<key>.getPercentile\<close> closures.\<close>

definition creditSpread_getPercentile :: "jsnum \<Rightarrow> js_error + jsnum" where
  "creditSpread_getPercentile v = interpolatePercentile v creditSpread_percentiles"

definition cape_getPercentile :: "jsnum \<Rightarrow> js_error + jsnum" where
  "cape_getPercentile v = interpolatePercentile v cape_percentiles"

definition buffett_getPercentile :: "jsnum \<Rightarrow> js_error + jsnum" where
  "buffett_getPercentile v = interpolatePercentile v buffett_percentiles"

subsection \<open>Vocabulary for statements about tables\<close>

text \<open>
  The exact linear interpolant between two breakpoints, and the loop of
  \<open>interpolatePercentile\<close> seen as a scan over the remaining breakpoints with the
  previous one in hand (shown below to compute what the indexed loop computes).
\<close>

definition interpolant :: "real \<Rightarrow> breakpoint \<Rightarrow> breakpoint \<Rightarrow> real" where
  "interpolant x lo hi =
     real_of_int (pct lo) +
     (x - bp_value lo) / (bp_value hi - bp_value lo) * real_of_int (pct hi - pct lo)"

fun scan_brackets :: "real \<Rightarrow> breakpoint \<Rightarrow> breakpoint list \<Rightarrow> int" where
  "scan_brackets x prev [] = 100"
| "scan_brackets x prev (cur # rest) =
     (if x \<le> bp_value cur then \<lfloor>interpolant x prev cur + 1 / 2\<rfloor>
      else scan_brackets x cur rest)"

definition percentile_of_real :: "real \<Rightarrow> breakpoint list \<Rightarrow> int" where
  "percentile_of_real x t =
     (if x \<le> bp_value (hd t) then pct (hd t)
      else if bp_value (last t) \<le> x then 100
      else scan_brackets x (hd t) (tl t))"

definition strictly_increasing_values :: "breakpoint list \<Rightarrow> bool" where
  "strictly_increasing_values t = sorted_wrt (\<lambda>a b. bp_value a < bp_value b) t"

definition nondecreasing_pcts :: "breakpoint list \<Rightarrow> bool" where
  "nondecreasing_pcts t = sorted_wrt (\<lambda>a b. pct a \<le> pct b) t"

definition pcts_in_range :: "breakpoint list \<Rightarrow> bool" where
  "pcts_in_range t = list_all (\<lambda>b. 0 \<le> pct b \<and> pct b \<le> 100) t"




section \<open>The cache (server.js)\<close>

text \<open>
  Times are clock readings in milliseconds (\<open>Date.now()\<close>); an ISO timestamp string
  (\<open>new Date().toISOString()\<close>) is kept as the reading it was made from.
\<close>

record 'a entry =
  data :: "'a option"
  timestamp :: int

record credit_result =
  cr_value :: jsnum
  cr_percentile :: jsnum
  cr_date :: string
  cr_updatedAt :: int

record buffett_result =
  br_value :: jsnum
  br_percentile :: jsnum
  br_marketCapDate :: string
  br_gdpDate :: string
  br_isAllTimeHigh :: bool
  br_updatedAt :: int

record cape_result =
  cp_value :: "jsnum option"
  cp_percentile :: jsnum
  cp_date :: "string option"
  cp_source :: string
  cp_updatedAt :: int

text \<open>
  What \<open>fetchShillerData\<close> returns: \<open>cape\<close> and \<open>date\<close> may be \<open>null\<close>; \<open>fetchedAt\<close>
  is present on fetched data, \<open>error\<close> on the static fallback.
\<close>

record shiller_result =
  sh_cape :: "jsnum option"
  sh_date :: "string option"
  sh_source :: string
  sh_fetchedAt :: "int option"
  sh_error :: "string option"

record cache =
  c_creditSpread :: "credit_result entry"
  c_buffett :: "buffett_result entry"
  c_cape :: "cape_result entry"
  c_shillerData :: "shiller_result entry"

datatype key = creditSpread | buffett | cape | shillerData

definition empty_entry :: "'a entry" where
  "empty_entry = \<lparr> data = None, timestamp = 0 \<rparr>"

definition initial_cache :: cache where
  "initial_cache =
     \<lparr> c_creditSpread = empty_entry, c_buffett = empty_entry,
       c_cape = empty_entry, c_shillerData = empty_entry \<rparr>"

fun CACHE_DURATION :: "key \<Rightarrow> int" where
  "CACHE_DURATION creditSpread = 60 * 60 * 1000"
| "CACHE_DURATION buffett = 24 * 60 * 60 * 1000"
| "CACHE_DURATION cape = 24 * 60 * 60 * 1000"
| "CACHE_DURATION shillerData = 24 * 60 * 60 * 1000"

text \<open>\<open>cache[key].data\<close> as a condition: an object is truthy, \<open>null\<close> is not.\<close>

fun has_data :: "cache \<Rightarrow> key \<Rightarrow> bool" where
  "has_data c creditSpread = (data (c_creditSpread c) \<noteq> None)"
| "has_data c buffett = (data (c_buffett c) \<noteq> None)"
| "has_data c cape = (data (c_cape c) \<noteq> None)"
| "has_data c shillerData = (data (c_shillerData c) \<noteq> None)"

fun timestamp_of :: "cache \<Rightarrow> key \<Rightarrow> int" where
  "timestamp_of c creditSpread = timestamp (c_creditSpread c)"
| "timestamp_of c buffett = timestamp (c_buffett c)"
| "timestamp_of c cape = timestamp (c_cape c)"
| "timestamp_of c shillerData = timestamp (c_shillerData c)"

text \<open>\<open>isCacheValid(key)\<close>, with the cache and the reading of \<open>Date.now()\<close> passed in.\<close>

definition isCacheValid :: "cache \<Rightarrow> int \<Rightarrow> key \<Rightarrow> bool" where
  "isCacheValid c now k = (has_data c k \<and> now - timestamp_of c k < CACHE_DURATION k)"

section \<open>Upstream replies and responses (server.js)\<close>

text \<open>
  One observation of a FRED series, its \<open>value\<close> already passed through
  \<open>parseFloat\<close> (\<open>NaN\<close> when it does not parse). A FRED call either rejects (the
  \<open>fetch\<close> or the JSON decoding fails, with a message) or yields a JSON object,
  of which only the \<open>observations\<close> property is read (\<open>None\<close> when absent).
\<close>

record observation =
  ob_value :: jsnum
  ob_date :: string

datatype fred_reply = FetchFailed string | Json "observation list option"

text \<open>
  The Shiller workbook: downloading or parsing throws, or the backward scan of the
  sheet ends with \<open>latestCape\<close> and \<open>latestDate\<close> (each \<open>null\<close> when no row
  qualifies). The search inside the sheet is not modelled.
\<close>

datatype shiller_reply = ShillerFailed string | Sheet "jsnum option" "string option"

text \<open>
  The world seen by one request: the clock before the upstream calls are awaited and
  after they have settled, the upstream replies, and the locale formatting of a date.
\<close>

record world =
  w_before :: int
  w_after :: int
  w_shiller :: shiller_reply
  w_fred :: "string \<Rightarrow> fred_reply"
  w_locale_date :: "string \<Rightarrow> string"

datatype 'a body = Result 'a | ErrorJson string

record 'a response =
  res_status :: nat
  res_body :: "'a body"

definition json :: "'a \<Rightarrow> 'a response" where
  "json x = \<lparr> res_status = 200, res_body = Result x \<rparr>"

definition status_500 :: "string \<Rightarrow> 'a response" where
  "status_500 m = \<lparr> res_status = 500, res_body = ErrorJson m \<rparr>"

definition SHILLER_URL :: string where
  "SHILLER_URL = ''https://shillerdata.com/ie_data.xls''"

text \<open>Sequencing of steps that may throw: the first error ends the \<open>try\<close> block.\<close>

definition try_then :: "js_error + 'a \<Rightarrow> ('a \<Rightarrow> js_error + 'b) \<Rightarrow> js_error + 'b" where
  "try_then x f = (case x of Inl e \<Rightarrow> Inl e | Inr a \<Rightarrow> f a)"

section \<open>fetchShillerData\<close>

text \<open>
  Every function that touches the cache or the network returns its result, the cache
  afterwards and the list of upstream requests it issued.
\<close>

definition static_shiller :: "string \<Rightarrow> shiller_result" where
  "static_shiller m =
     \<lparr> sh_cape = Some (Fin 38.2), sh_date = Some ''fallback'', sh_source = ''static'',
       sh_fetchedAt = None, sh_error = Some m \<rparr>"

definition fetchShillerData :: "cache \<Rightarrow> world \<Rightarrow> shiller_result \<times> cache \<times> string list" where
  "fetchShillerData c w =
     (case (isCacheValid c (w_before w) shillerData, data (c_shillerData c)) of
        (True, Some d) \<Rightarrow> (d, c, [])
      | _ \<Rightarrow>
        (case w_shiller w of
           Sheet latestCape latestDate \<Rightarrow>
             (let result = \<lparr> sh_cape = latestCape, sh_date = latestDate,
                              sh_source = ''Shiller/Yale'', sh_fetchedAt = Some (w_after w),
                              sh_error = None \<rparr>
              in (result,
                  c\<lparr> c_shillerData := \<lparr> data = Some result, timestamp = w_after w \<rparr> \<rparr>,
                  [SHILLER_URL]))
         | ShillerFailed m \<Rightarrow>
             (case data (c_shillerData c) of
                Some d \<Rightarrow> (d, c, [SHILLER_URL])
              | None \<Rightarrow> (static_shiller m, c, [SHILLER_URL]))))"

section \<open>The per-indicator endpoints\<close>

text \<open>\<open>app.get('/api/credit-spread')\<close>.\<close>

definition credit_spread_endpoint ::
  "cache \<Rightarrow> world \<Rightarrow> credit_result response \<times> cache \<times> string list" where
  "credit_spread_endpoint c w =
     (case (isCacheValid c (w_before w) creditSpread, data (c_creditSpread c)) of
        (True, Some d) \<Rightarrow> (json d, c, [])
      | _ \<Rightarrow>
        (case w_fred w ''BAA10Y'' of
           FetchFailed m \<Rightarrow> (status_500 m, c, [''BAA10Y''])
         | Json (Some (latest # _)) \<Rightarrow>
             (case creditSpread_getPercentile (ob_value latest) of
                Inl e \<Rightarrow> (status_500 (message e), c, [''BAA10Y''])
              | Inr percentile \<Rightarrow>
                  (let result = \<lparr> cr_value = ob_value latest, cr_percentile = percentile,
                                   cr_date = ob_date latest, cr_updatedAt = w_after w \<rparr>
                   in (json result,
                       c\<lparr> c_creditSpread := \<lparr> data = Some result, timestamp = w_after w \<rparr> \<rparr>,
                       [''BAA10Y''])))
         | Json _ \<Rightarrow> (status_500 ''No data from FRED'', c, [''BAA10Y''])))"

text \<open>
  \<open>app.get('/api/buffett')\<close>. Both series are requested together; when both calls
  reject, the model reports the message of the market-capitalisation call (the
  program reports the one that rejects first).
\<close>

definition buffett_requests :: "string list" where
  "buffett_requests = [''BOGZ1LM883164115Q'', ''GDP'']"

definition buffett_endpoint ::
  "cache \<Rightarrow> world \<Rightarrow> buffett_result response \<times> cache \<times> string list" where
  "buffett_endpoint c w =
     (case (isCacheValid c (w_before w) buffett, data (c_buffett c)) of
        (True, Some d) \<Rightarrow> (json d, c, [])
      | _ \<Rightarrow>
        (case (w_fred w ''BOGZ1LM883164115Q'', w_fred w ''GDP'') of
           (FetchFailed m, _) \<Rightarrow> (status_500 m, c, buffett_requests)
         | (_, FetchFailed m) \<Rightarrow> (status_500 m, c, buffett_requests)
         | (Json (Some (mc # _)), Json (Some (g # _))) \<Rightarrow>
             (let marketCap = ob_value mc;
                  gdp = js_mul (ob_value g) (Fin 1000);
                  buffettValue = js_mul (js_div marketCap gdp) (Fin 100)
              in case buffett_getPercentile buffettValue of
                   Inl e \<Rightarrow> (status_500 (message e), c, buffett_requests)
                 | Inr percentile \<Rightarrow>
                     (let result = \<lparr> br_value = Math_round buffettValue,
                                      br_percentile = percentile,
                                      br_marketCapDate = ob_date mc, br_gdpDate = ob_date g,
                                      br_isAllTimeHigh = js_ge buffettValue (Fin 240),
                                      br_updatedAt = w_after w \<rparr>
                      in (json result,
                          c\<lparr> c_buffett := \<lparr> data = Some result, timestamp = w_after w \<rparr> \<rparr>,
                          buffett_requests)))
         | _ \<Rightarrow> (status_500 ''No data from FRED'', c, buffett_requests)))"

text \<open>
  \<open>app.get('/api/cape')\<close>. A \<open>null\<close> CAPE reaches \<open>interpolatePercentile\<close> only in
  comparisons and arithmetic, where it counts as \<open>0\<close>.
\<close>

definition cape_endpoint ::
  "cache \<Rightarrow> world \<Rightarrow> cape_result response \<times> cache \<times> string list" where
  "cape_endpoint c w =
     (case (isCacheValid c (w_before w) cape, data (c_cape c)) of
        (True, Some d) \<Rightarrow> (json d, c, [])
      | _ \<Rightarrow>
        (case fetchShillerData c w of
           (shiller, c1, requests) \<Rightarrow>
             (case cape_getPercentile (ToNumber (sh_cape shiller)) of
                Inl e \<Rightarrow> (status_500 (message e), c1, requests)
              | Inr percentile \<Rightarrow>
                  (let result = \<lparr> cp_value = sh_cape shiller, cp_percentile = percentile,
                                   cp_date = sh_date shiller,
                                   cp_source = sh_source shiller,
                                   cp_updatedAt = w_after w \<rparr>
                   in (json result,
                       c1\<lparr> c_cape := \<lparr> data = Some result, timestamp = w_after w \<rparr> \<rparr>,
                       requests)))))"

section \<open>The composite endpoint\<close>

record sp500_field =
  sp_value :: jsnum
  sp_date :: "string option"
  sp_timestamp :: string
  sp_source :: string

record cape_field =
  cf_value :: "jsnum option"
  cf_percentile :: jsnum
  cf_date :: "string option"
  cf_source :: string

record buffett_field =
  bf_value :: jsnum
  bf_percentile :: jsnum
  bf_date :: "string option"
  bf_isAllTimeHigh :: bool

record credit_field =
  cs_value :: jsnum
  cs_percentile :: jsnum
  cs_date :: "string option"

record indicators =
  i_score :: jsnum
  i_sp500 :: sp500_field
  i_cape :: cape_field
  i_buffett :: buffett_field
  i_creditSpread :: credit_field
  i_isLive :: bool
  i_error :: "string option"
  i_updatedAt :: int

text \<open>The literal of the \<open>catch\<close> handler of \<open>/api/indicators\<close>.\<close>

definition static_indicators :: "string \<Rightarrow> int \<Rightarrow> indicators" where
  "static_indicators m now =
     \<lparr> i_score = Fin 99,
       i_sp500 = \<lparr> sp_value = Fin 6845.50, sp_date = None,
                   sp_timestamp = ''Dec 31 close'', sp_source = ''static'' \<rparr>,
       i_cape = \<lparr> cf_value = Some (Fin 39.4), cf_percentile = Fin 98, cf_date = None,
                  cf_source = ''static'' \<rparr>,
       i_buffett = \<lparr> bf_value = Fin 244, bf_percentile = Fin 100, bf_date = None,
                     bf_isAllTimeHigh = True \<rparr>,
       i_creditSpread = \<lparr> cs_value = Fin 1.69, cs_percentile = Fin 19, cs_date = None \<rparr>,
       i_isLive = False,
       i_error = Some m,
       i_updatedAt = now \<rparr>"

text \<open>
  \<open>reply.observations[0]\<close>: a \<open>TypeError\<close> when \<open>observations\<close> is missing; with an
  empty array the element is \<open>undefined\<close> and reading a property of it throws.
\<close>

fun first_observation :: "fred_reply \<Rightarrow> js_error + observation" where
  "first_observation (FetchFailed m) = Inl (Error m)"
| "first_observation (Json None) = Inl (TypeError ''Cannot read properties of undefined'')"
| "first_observation (Json (Some [])) = Inl (TypeError ''Cannot read properties of undefined'')"
| "first_observation (Json (Some (ob # _))) = Inr ob"

text \<open>
  \<open>Promise.all\<close> rejects as soon as one call rejects. Of several rejections the
  program reports the earliest in time; the model, which has no order of arrival,
  takes the first in the order of the array. Only the text of the message depends on
  this.
\<close>

fun first_rejection :: "fred_reply list \<Rightarrow> string option" where
  "first_rejection [] = None"
| "first_rejection (FetchFailed m # _) = Some m"
| "first_rejection (Json _ # rs) = first_rejection rs"

definition indicator_requests :: "string list" where
  "indicator_requests = [''BAA10Y'', ''BOGZ1LM883164115Q'', ''GDP'', ''SP500'']"

text \<open>The body of the \<open>try\<close> block once \<open>fetchShillerData\<close> has returned.\<close>

definition indicators_try :: "shiller_result \<Rightarrow> world \<Rightarrow> js_error + indicators" where
  "indicators_try shiller w =
     (case first_rejection (map (w_fred w) indicator_requests) of
        Some m \<Rightarrow> Inl (Error m)
      | None \<Rightarrow>
        (let capeValue = sh_cape shiller in
         try_then (cape_getPercentile (ToNumber capeValue)) (\<lambda>capePercentile.
         try_then (first_observation (w_fred w ''BAA10Y'')) (\<lambda>creditOb.
         let creditValue = ob_value creditOb in
         try_then (creditSpread_getPercentile creditValue) (\<lambda>creditPercentile.
         try_then (first_observation (w_fred w ''BOGZ1LM883164115Q'')) (\<lambda>mcOb.
         try_then (first_observation (w_fred w ''GDP'')) (\<lambda>gdpOb.
         let marketCap = ob_value mcOb;
             gdp = js_mul (ob_value gdpOb) (Fin 1000);
             buffettValue = Math_round (js_mul (js_div marketCap gdp) (Fin 100)) in
         try_then (buffett_getPercentile buffettValue) (\<lambda>buffettPercentile.
         let compositeScore =
               Math_round (js_div (js_add capePercentile buffettPercentile) (Fin 2)) in
         try_then (first_observation (w_fred w ''SP500'')) (\<lambda>spOb.
         Inr \<lparr> i_score = compositeScore,
               i_sp500 = \<lparr> sp_value = ob_value spOb, sp_date = Some (ob_date spOb),
                           sp_timestamp = w_locale_date w (ob_date spOb) @ '' close'',
                           sp_source = ''FRED/S&P Dow Jones'' \<rparr>,
               i_cape = \<lparr> cf_value = capeValue, cf_percentile = capePercentile,
                          cf_date = sh_date shiller, cf_source = ''Shiller/Yale'' \<rparr>,
               i_buffett = \<lparr> bf_value = buffettValue, bf_percentile = buffettPercentile,
                             bf_date = Some (ob_date mcOb),
                             bf_isAllTimeHigh = js_ge buffettValue (Fin 240) \<rparr>,
               i_creditSpread = \<lparr> cs_value = creditValue, cs_percentile = creditPercentile,
                                  cs_date = Some (ob_date creditOb) \<rparr>,
               i_isLive = True,
               i_error = None,
               i_updatedAt = w_after w \<rparr>)))))))))"

text \<open>
  \<open>app.get('/api/indicators')\<close>: the four FRED series and the Shiller data are all
  requested before anything is awaited; whatever is thrown ends in the \<open>catch\<close>
  handler, which answers with the static literal.
\<close>

definition indicators_endpoint ::
  "cache \<Rightarrow> world \<Rightarrow> indicators response \<times> cache \<times> string list" where
  "indicators_endpoint c w =
     (case fetchShillerData c w of
        (shiller, c1, requests) \<Rightarrow>
          (case indicators_try shiller w of
             Inr payload \<Rightarrow> (json payload, c1, requests @ indicator_requests)
           | Inl error \<Rightarrow>
               (json (static_indicators (message error) (w_after w)), c1,
                requests @ indicator_requests)))"

text \<open>\<open>app.get('/api/health')\<close>: the \<open>cacheStatus\<close> object.\<close>

record cacheStatus =
  hs_cape :: string
  hs_buffett :: string
  hs_creditSpread :: string

definition valid_or_expired :: "bool \<Rightarrow> string" where
  "valid_or_expired b = (if b then ''valid'' else ''expired'')"

definition health :: "cache \<Rightarrow> int \<Rightarrow> cacheStatus" where
  "health c now =
     \<lparr> hs_cape = valid_or_expired (isCacheValid c now cape),
       hs_buffett = valid_or_expired (isCacheValid c now buffett),
       hs_creditSpread = valid_or_expired (isCacheValid c now creditSpread) \<rparr>"

section \<open>The single-cache server (the second source file)\<close>

text \<open>
  This file is a second server with one cache slot for the whole data set. Its
  fetchers catch their own errors and return \<open>null\<close>, modelled as \<open>None\<close>: a FRED
  series is the list of its parsed rows, the scraped CAPE a number, the quote an
  object whose properties may be missing.
\<close>

record fred_point =
  fp_date :: string
  fp_value :: jsnum

record buffett_calc =
  bc_value :: jsnum
  bc_date :: string
  bc_marketCap :: jsnum
  bc_gdp :: jsnum

record quote =
  q_price :: "jsnum option"
  q_high52w :: "jsnum option"
  q_low52w :: "jsnum option"

record upstream =
  u_wilshire :: "fred_point list option"
  u_gdp :: "fred_point list option"
  u_baa10y :: "fred_point list option"
  u_cape :: "jsnum option"
  u_sp500Yahoo :: "quote option"

record raw_indicators =
  ri_cape :: jsnum
  ri_buffett :: jsnum
  ri_creditSpread :: jsnum
  ri_sp500 :: "jsnum option"

record metadata =
  md_buffettDate :: "string option"
  md_spreadDate :: "string option"
  md_capeSource :: string

record current_data =
  cd_timestamp :: int
  cd_indicators :: raw_indicators
  cd_sp500Details :: quote
  cd_metadata :: metadata

record current_cache =
  cc_data :: "current_data option"
  cc_timestamp :: int

definition CACHE_DURATION_current :: int where
  "CACHE_DURATION_current = 4 * 60 * 60 * 1000"

definition calculateBuffettIndicator ::
  "fred_point list option \<Rightarrow> fred_point list option \<Rightarrow> buffett_calc option" where
  "calculateBuffettIndicator wilshire gdp =
     (case (wilshire, gdp) of
        (Some ws, Some gs) \<Rightarrow>
          (if ws = [] \<or> gs = [] then None
           else
             (let latestWilshire = last ws;
                  latestGDP = last gs;
                  marketCapBillions = js_mul (fp_value latestWilshire) (Fin 1.05);
                  gdpBillions = fp_value latestGDP
              in Some \<lparr> bc_value =
                           js_div (Math_round (js_mul (js_div marketCapBillions gdpBillions)
                                                      (Fin 1000)))
                                  (Fin 10),
                         bc_date = fp_date latestWilshire,
                         bc_marketCap = marketCapBillions,
                         bc_gdp = gdpBillions \<rparr>))
      | _ \<Rightarrow> None)"

text \<open>\<open>cape || 38.0\<close>: the scraped value unless it is \<open>null\<close>, \<open>0\<close> or \<open>NaN\<close>.\<close>

definition cape_truthy :: "jsnum option \<Rightarrow> bool" where
  "cape_truthy cp = (case cp of None \<Rightarrow> False | Some x \<Rightarrow> js_truthy x)"

text \<open>
  \<open>getCurrentData\<close>, given the cache, the reading \<open>now\<close> of the clock at entry, the
  clock when the data object is built and the results of the five fetchers; the flag
  returned tells whether the fetchers were called.
\<close>

definition getCurrentData ::
  "current_cache \<Rightarrow> int \<Rightarrow> int \<Rightarrow> upstream \<Rightarrow> current_data \<times> current_cache \<times> bool" where
  "getCurrentData cch now built u =
     (case (cc_data cch, now - cc_timestamp cch < CACHE_DURATION_current) of
        (Some d, True) \<Rightarrow> (d, cch, False)
      | _ \<Rightarrow>
        (let buffettC = calculateBuffettIndicator (u_wilshire u) (u_gdp u);
             latestSpread = (case u_baa10y u of
                               Some rows \<Rightarrow> if rows \<noteq> [] then Some (last rows) else None
                             | None \<Rightarrow> None);
             d = \<lparr> cd_timestamp = built,
                   cd_indicators =
                     \<lparr> ri_cape = (if cape_truthy (u_cape u) then ToNumber (u_cape u)
                                   else Fin 38.0),
                       ri_buffett = (case buffettC of Some b \<Rightarrow> bc_value b | None \<Rightarrow> Fin 200),
                       ri_creditSpread = (case latestSpread of Some r \<Rightarrow> fp_value r
                                          | None \<Rightarrow> Fin 1.8),
                       ri_sp500 = (case u_sp500Yahoo u of Some q \<Rightarrow> q_price q | None \<Rightarrow> None) \<rparr>,
                   cd_sp500Details =
                     (case u_sp500Yahoo u of Some q \<Rightarrow> q
                      | None \<Rightarrow> \<lparr> q_price = None, q_high52w = None, q_low52w = None \<rparr>),
                   cd_metadata =
                     \<lparr> md_buffettDate = (case buffettC of Some b \<Rightarrow> Some (bc_date b)
                                           | None \<Rightarrow> None),
                       md_spreadDate = (case latestSpread of Some r \<Rightarrow> Some (fp_date r)
                                          | None \<Rightarrow> None),
                       md_capeSource = (if cape_truthy (u_cape u) then ''multpl.com (live)''
                                        else ''fallback'') \<rparr> \<rparr>
         in (d, \<lparr> cc_data = Some d, cc_timestamp = now \<rparr>, True)))"

section \<open>Vocabulary for statements about the endpoints\<close>

text \<open>
  A FRED call is of no use to \<open>/api/indicators\<close> when it rejects or when its reply
  has no first observation.
\<close>

definition failed_call :: "fred_reply \<Rightarrow> bool" where
  "failed_call r = (case first_observation r of Inl _ \<Rightarrow> True | Inr _ \<Rightarrow> False)"

text \<open>\<open>(marketCap / gdp) * 100\<close> with \<open>gdp\<close> the GDP observation times \<open>1000\<close>.\<close>

definition buffett_ratio :: "observation \<Rightarrow> observation \<Rightarrow> jsnum" where
  "buffett_ratio mc g = js_mul (js_div (ob_value mc) (js_mul (ob_value g) (Fin 1000))) (Fin 100)"

text \<open>The \<open>indicators\<close> object of what \<open>getCurrentData\<close> returns.\<close>

definition current_indicators :: "current_cache \<Rightarrow> int \<Rightarrow> int \<Rightarrow> upstream \<Rightarrow> raw_indicators" where
  "current_indicators cch now built u = cd_indicators (fst (getCurrentData cch now built u))"

section \<open>Concrete inputs\<close>

text \<open>
  Replies of the four FRED series with a given market capitalisation (GDP is
  \<open>30000\<close>, so the ratio is the market capitalisation over \<open>300000\<close>), the same with
  the credit-spread call rejecting, and the same with other credit-spread and S&P 500
  observations; a world at a fixed instant whose date formatting is the identity; the
  same world some minutes later.
\<close>

definition ob :: "real \<Rightarrow> string \<Rightarrow> observation" where
  "ob v d = \<lparr> ob_value = Fin v, ob_date = d \<rparr>"

definition sample_fred :: "real \<Rightarrow> string \<Rightarrow> fred_reply" where
  "sample_fred mc series =
     (if series = ''BAA10Y'' then Json (Some [ob 1.76 ''2025-12-30''])
      else if series = ''BOGZ1LM883164115Q'' then Json (Some [ob mc ''2025-07-01''])
      else if series = ''GDP'' then Json (Some [ob 30000 ''2025-07-01''])
      else if series = ''SP500'' then Json (Some [ob 6900 ''2025-12-30''])
      else Json None)"

definition credit_down_fred :: "real \<Rightarrow> string \<Rightarrow> fred_reply" where
  "credit_down_fred mc series =
     (if series = ''BAA10Y'' then FetchFailed ''fetch failed'' else sample_fred mc series)"

definition other_fred :: "real \<Rightarrow> string \<Rightarrow> fred_reply" where
  "other_fred mc series =
     (if series = ''BAA10Y'' then Json (Some [ob 5.2 ''2025-12-31''])
      else if series = ''SP500'' then Json (Some [ob 4100 ''2025-12-31''])
      else sample_fred mc series)"

definition sample_world :: "shiller_reply \<Rightarrow> (string \<Rightarrow> fred_reply) \<Rightarrow> world" where
  "sample_world sh fr =
     \<lparr> w_before = 1767225600000, w_after = 1767225600250, w_shiller = sh, w_fred = fr,
       w_locale_date = (\<lambda>d. d) \<rparr>"


text \<open>
  Caches: one whose credit-spread entry is a month old, and the one left by a
  successful credit-spread request in the sample world.
\<close>

definition stale_credit_cache :: cache where
  "stale_credit_cache =
     initial_cache\<lparr> c_creditSpread :=
       \<lparr> data = Some \<lparr> cr_value = Fin 1.76, cr_percentile = Fin 25, cr_date = ''2025-11-28'',
                        cr_updatedAt = 1764547200000 \<rparr>,
         timestamp = 1764547200000 \<rparr> \<rparr>"



text \<open>The single-cache server at start-up, and fetcher results with no credit spread.\<close>

definition empty_current_cache :: current_cache where
  "empty_current_cache = \<lparr> cc_data = None, cc_timestamp = 0 \<rparr>"

definition sample_upstream :: upstream where
  "sample_upstream =
     \<lparr> u_wilshire = Some [\<lparr> fp_date = ''2025-12-30'', fp_value = Fin 60000 \<rparr>],
       u_gdp = Some [\<lparr> fp_date = ''2025-07-01'', fp_value = Fin 30000 \<rparr>],
       u_baa10y = None,
       u_cape = Some (Fin 40),
       u_sp500Yahoo = None \<rparr>"

section \<open>Properties of the percentile tables\<close>

lemma loop_scan:
  "0 < i \<Longrightarrow> i \<le> length t \<Longrightarrow> bp_value (t ! (i - 1)) < x \<Longrightarrow>
   interpolate_loop (Fin x) t i = Fin (of_int (scan_brackets x (t ! (i - 1)) (drop i t)))"
proof (induction "Fin x" t i rule: interpolate_loop.induct)
  case (1 percentiles i)
  show ?case
  proof (cases "i < length percentiles")
    case False
    with 1(3) have "i = length percentiles" by simp
    then show ?thesis by (simp add: interpolate_loop.simps)
  next
    case True
    then have d: "drop i percentiles = percentiles ! i # drop (Suc i) percentiles"
      by (simp add: Cons_nth_drop_Suc)
    show ?thesis
    proof (cases "x \<le> bp_value (percentiles ! i)")
      case le: True
      with 1(4) have "bp_value (percentiles ! i) - bp_value (percentiles ! (i - 1)) \<noteq> 0" by simp
      with True le show ?thesis
        by (simp add: interpolate_loop.simps [of _ _ i] d js_sub_def interpolant_def Let_def)
    next
      case gt: False
      with True 1(1) [OF True] have
        "interpolate_loop (Fin x) percentiles (i + 1) =
         Fin (of_int (scan_brackets x (percentiles ! i) (drop (i + 1) percentiles)))"
        by simp
      with True gt show ?thesis
        by (simp add: interpolate_loop.simps [of _ _ i] d)
    qed
  qed
qed


lemma interpolant_between:
  assumes "bp_value lo < x" "x \<le> bp_value hi"
  shows "min (real_of_int (pct lo)) (real_of_int (pct hi)) \<le> interpolant x lo hi"
    and "interpolant x lo hi \<le> max (real_of_int (pct lo)) (real_of_int (pct hi))"
proof -
  define r where "r = (x - bp_value lo) / (bp_value hi - bp_value lo)"
  have r0: "0 \<le> r" and r1: "r \<le> 1" using assms by (simp_all add: r_def)
  define a where "a = real_of_int (pct lo)"
  define b where "b = real_of_int (pct hi)"
  have eq: "interpolant x lo hi = a + r * (b - a)"
    by (simp add: interpolant_def r_def a_def b_def)
  have "min a b \<le> a + r * (b - a)"
  proof (cases "a \<le> b")
    case True
    then have "0 \<le> r * (b - a)" using r0 by simp
    with True show ?thesis by simp
  next
    case False
    then have "r * (a - b) \<le> 1 * (a - b)" using r1 by (intro mult_right_mono) simp_all
    with False show ?thesis by (simp add: algebra_simps)
  qed
  moreover have "a + r * (b - a) \<le> max a b"
  proof (cases "a \<le> b")
    case True
    then have "r * (b - a) \<le> 1 * (b - a)" using r1 by (intro mult_right_mono) simp_all
    with True show ?thesis by (simp add: algebra_simps)
  next
    case False
    then have "0 \<le> r * (a - b)" using r0 by simp
    with False show ?thesis by (simp add: algebra_simps)
  qed
  ultimately show "min (real_of_int (pct lo)) (real_of_int (pct hi)) \<le> interpolant x lo hi"
    and "interpolant x lo hi \<le> max (real_of_int (pct lo)) (real_of_int (pct hi))"
    by (simp_all add: eq a_def b_def)
qed

lemma round_between:
  assumes "real_of_int l \<le> y" "y \<le> real_of_int u"
  shows "l \<le> \<lfloor>y + 1 / 2\<rfloor>" and "\<lfloor>y + 1 / 2\<rfloor> \<le> u"
proof -
  from assms(1) show "l \<le> \<lfloor>y + 1 / 2\<rfloor>" by (simp add: le_floor_iff)
  have "y + 1 / 2 < real_of_int (u + 1)" using assms(2) by simp
  then have "\<lfloor>y + 1 / 2\<rfloor> < u + 1" by (simp only: floor_less_iff)
  then show "\<lfloor>y + 1 / 2\<rfloor> \<le> u" by simp
qed

lemma scan_range:
  "bp_value prev < x \<Longrightarrow> l \<le> pct prev \<Longrightarrow> pct prev \<le> u \<Longrightarrow> l \<le> 100 \<Longrightarrow> 100 \<le> u \<Longrightarrow>
   \<forall>b \<in> set rest. l \<le> pct b \<and> pct b \<le> u \<Longrightarrow>
   l \<le> scan_brackets x prev rest \<and> scan_brackets x prev rest \<le> u"
proof (induction rest arbitrary: prev)
  case Nil
  then show ?case by simp
next
  case (Cons cur rest)
  show ?case
  proof (cases "x \<le> bp_value cur")
    case True
    from Cons.prems have "real_of_int l \<le> min (real_of_int (pct prev)) (real_of_int (pct cur))"
      and "max (real_of_int (pct prev)) (real_of_int (pct cur)) \<le> real_of_int u" by simp_all
    with interpolant_between [OF Cons.prems(1) True]
    have "real_of_int l \<le> interpolant x prev cur" "interpolant x prev cur \<le> real_of_int u"
      by linarith+
    from round_between [OF this] True show ?thesis by simp
  next
    case False
    with Cons.IH [of cur] Cons.prems show ?thesis by simp
  qed
qed

lemma interpolatePercentile_Fin:
  assumes "t \<noteq> []"
  shows "interpolatePercentile (Fin x) t = Inr (Fin (of_int (percentile_of_real x t)))"
proof -
  from assms have len: "0 < length t" by simp
  have h: "t ! 0 = hd t" using assms by (simp add: hd_conv_nth)
  have l: "t ! (length t - Suc 0) = last t" using assms by (simp add: last_conv_nth)
  show ?thesis
  proof (cases "x \<le> bp_value (hd t)")
    case True
    then show ?thesis using assms by (simp add: interpolatePercentile_def percentile_of_real_def h)
  next
    case False
    then have "bp_value (t ! (1 - 1)) < x" by (simp add: h)
    from loop_scan [OF _ _ this] len
    have "interpolate_loop (Fin x) t 1 = Fin (of_int (scan_brackets x (hd t) (tl t)))"
      by (simp add: h drop_Suc)
    with False show ?thesis using assms
      by (simp add: interpolatePercentile_def percentile_of_real_def h l js_ge_def)
  qed
qed


lemma interpolatePercentile_PInf: "t \<noteq> [] \<Longrightarrow> interpolatePercentile PInf t = Inr (Fin 100)"
  by (simp add: interpolatePercentile_def js_ge_def)

lemma interpolatePercentile_NInf:
  "t \<noteq> [] \<Longrightarrow> interpolatePercentile NInf t = Inr (Fin (of_int (pct (hd t))))"
  by (simp add: interpolatePercentile_def hd_conv_nth)

lemma interpolant_mono:
  assumes "bp_value lo < x" "x \<le> y" "pct lo \<le> pct hi" "y \<le> bp_value hi"
  shows "interpolant x lo hi \<le> interpolant y lo hi"
proof -
  have d: "0 < bp_value hi - bp_value lo" using assms by simp
  have "(x - bp_value lo) / (bp_value hi - bp_value lo) \<le> (y - bp_value lo) / (bp_value hi - bp_value lo)"
    using assms(2) d by (simp add: divide_right_mono)
  then have "(x - bp_value lo) / (bp_value hi - bp_value lo) * real_of_int (pct hi - pct lo)
       \<le> (y - bp_value lo) / (bp_value hi - bp_value lo) * real_of_int (pct hi - pct lo)"
    using assms(3) by (intro mult_right_mono) simp_all
  then show ?thesis by (simp add: interpolant_def)
qed

lemma scan_mono:
  "bp_value prev < x \<Longrightarrow> x \<le> y \<Longrightarrow>
   sorted_wrt (\<lambda>a b. pct a \<le> pct b) (prev # rest) \<Longrightarrow>
   \<forall>b \<in> set (prev # rest). pct b \<le> 100 \<Longrightarrow>
   scan_brackets x prev rest \<le> scan_brackets y prev rest"
proof (induction rest arbitrary: prev)
  case Nil
  then show ?case by simp
next
  case (Cons cur rest)
  from Cons.prems(3) have pc: "pct prev \<le> pct cur"
    and srt: "sorted_wrt (\<lambda>a b. pct a \<le> pct b) (cur # rest)" by simp_all
  from Cons.prems(4) have bnd: "\<forall>b \<in> set (cur # rest). pct b \<le> 100" by simp
  show ?case
  proof (cases "x \<le> bp_value cur")
    case xle: True
    show ?thesis
    proof (cases "y \<le> bp_value cur")
      case True
      from interpolant_mono [OF Cons.prems(1) Cons.prems(2) pc True]
      have "\<lfloor>interpolant x prev cur + 1 / 2\<rfloor> \<le> \<lfloor>interpolant y prev cur + 1 / 2\<rfloor>"
        by (intro floor_mono) simp
      with xle True show ?thesis by simp
    next
      case False
      from interpolant_between(2) [OF Cons.prems(1) xle] pc
      have "interpolant x prev cur \<le> real_of_int (pct cur)" by simp
      from round_between(2) [OF _ this, of "\<lfloor>interpolant x prev cur\<rfloor>"]
      have 1: "\<lfloor>interpolant x prev cur + 1 / 2\<rfloor> \<le> pct cur" by simp
      from False have "bp_value cur < y" by simp
      from scan_range [OF this, of "pct cur" 100 rest] srt bnd
      have 2: "pct cur \<le> scan_brackets y cur rest" by auto
      from 1 2 xle False show ?thesis by simp
    qed
  next
    case False
    then have "bp_value cur < x" by simp
    from Cons.IH [OF this Cons.prems(2) srt bnd] False Cons.prems(2) show ?thesis by simp
  qed
qed







lemma percentile_of_real_range:
  assumes "t \<noteq> []" "pcts_in_range t"
  shows "0 \<le> percentile_of_real x t \<and> percentile_of_real x t \<le> 100"
proof -
  from assms(1) obtain b rest where t: "t = b # rest" by (cases t) auto
  from assms(2) have b: "0 \<le> pct b" "pct b \<le> 100"
    and r: "\<forall>c \<in> set rest. 0 \<le> pct c \<and> pct c \<le> 100"
    by (simp_all add: pcts_in_range_def t list_all_iff)
  show ?thesis
  proof (cases "x \<le> bp_value b")
    case True
    with b show ?thesis by (simp add: percentile_of_real_def t)
  next
    case False
    then have "bp_value b < x" by simp
    from scan_range [OF this b(1) b(2) _ _ r] False show ?thesis
      by (simp add: percentile_of_real_def t)
  qed
qed

lemma percentile_of_real_mono:
  assumes "t \<noteq> []" "nondecreasing_pcts t" "pcts_in_range t" "x \<le> y"
  shows "percentile_of_real x t \<le> percentile_of_real y t"
proof -
  from assms(1) obtain b rest where t: "t = b # rest" by (cases t) auto
  from assms(2) have srt: "sorted_wrt (\<lambda>a b. pct a \<le> pct b) (b # rest)"
    by (simp add: nondecreasing_pcts_def t)
  from assms(3) have bnd: "\<forall>c \<in> set (b # rest). pct c \<le> 100"
    by (simp add: pcts_in_range_def t list_all_iff)
  from srt have low: "\<forall>c \<in> set rest. pct b \<le> pct c \<and> pct c \<le> 100" using bnd by auto
  from bnd have b100: "pct b \<le> 100" by simp
  have ge_first: "pct b \<le> percentile_of_real z t" for z
  proof (cases "z \<le> bp_value b")
    case True
    then show ?thesis by (simp add: percentile_of_real_def t)
  next
    case False
    then have "bp_value b < z" by simp
    from scan_range [OF this order_refl b100 b100 order_refl low] False b100 show ?thesis
      by (simp add: percentile_of_real_def t)
  qed
  have le_100: "percentile_of_real z t \<le> 100" for z
  proof (cases "z \<le> bp_value b")
    case True
    then show ?thesis using b100 by (simp add: percentile_of_real_def t)
  next
    case False
    then have "bp_value b < z" by simp
    from scan_range [OF this order_refl b100 b100 order_refl low] False show ?thesis
      by (simp add: percentile_of_real_def t)
  qed
  show ?thesis
  proof (cases "x \<le> bp_value b")
    case True
    then have "percentile_of_real x t = pct b" by (simp add: percentile_of_real_def t)
    with ge_first [of y] show ?thesis by simp
  next
    case xgt: False
    with assms(4) have ygt: "\<not> y \<le> bp_value b" by simp
    show ?thesis
    proof (cases "bp_value (last t) \<le> y")
      case True
      with ygt have "percentile_of_real y t = 100" by (simp add: percentile_of_real_def t)
      with le_100 [of x] show ?thesis by simp
    next
      case False
      with assms(4) have "\<not> bp_value (last t) \<le> x" by simp
      moreover from xgt have "bp_value b < x" by simp
      from scan_mono [OF this assms(4) srt bnd]
      have "scan_brackets x b rest \<le> scan_brackets y b rest" .
      ultimately show ?thesis using xgt ygt False by (simp add: percentile_of_real_def t)
    qed
  qed
qed


text \<open>
  Claim C6. On every breakpoint table (non-empty, percentiles within \<open>0..100\<close> as the
  data model types them) with strictly increasing values and non-decreasing
  percentiles, \<open>interpolatePercentile\<close> is monotone: whenever \<open>x <= y\<close> holds for two
  inputs, both calls return a number and the percentile of \<open>x\<close> is at most that of
  \<open>y\<close>, across breakpoints and through the rounding.
\<close>

theorem interpolatePercentile_monotone:
  assumes "t \<noteq> []" and "strictly_increasing_values t" and "nondecreasing_pcts t"
    and "pcts_in_range t" and "js_le x y"
  shows "\<exists>p q. interpolatePercentile x t = Inr (Fin (of_int p)) \<and>
               interpolatePercentile y t = Inr (Fin (of_int q)) \<and> p \<le> q"
proof -
  from assms(1) obtain b rest where t: "t = b # rest" by (cases t) auto
  have first: "pct (hd t) \<le> percentile_of_real z t" for z
    using percentile_of_real_mono [OF assms(1,3,4), of "bp_value (hd t)" "max z (bp_value (hd t))"]
    by (cases "z \<le> bp_value (hd t)") (simp_all add: percentile_of_real_def max_def)
  have b100: "pct (hd t) \<le> 100" using assms(4) by (simp add: pcts_in_range_def t)
  show ?thesis
  proof (cases x)
    case NaN
    with assms(5) show ?thesis by simp
  next
    case (Fin a)
    note xa = this
    show ?thesis
    proof (cases y)
      case NaN
      with assms(5) xa show ?thesis by simp
    next
      case (Fin c)
      with xa assms(5) have "a \<le> c" by simp
      from percentile_of_real_mono [OF assms(1,3,4) this] xa Fin assms(1) show ?thesis
        by (simp add: interpolatePercentile_Fin)
    next
      case PInf
      with xa assms(1) percentile_of_real_range [OF assms(1,4), of a] show ?thesis
        by (simp add: interpolatePercentile_Fin interpolatePercentile_PInf)
    next
      case NInf
      with assms(5) xa show ?thesis by simp
    qed
  next
    case PInf
    with assms(5) have "y = PInf" by (cases y) simp_all
    with PInf assms(1) show ?thesis by (simp add: interpolatePercentile_PInf)
  next
    case NInf
    note xn = this
    show ?thesis
    proof (cases y)
      case NaN
      with assms(5) xn show ?thesis by simp
    next
      case (Fin c)
      with xn assms(1) first [of c] show ?thesis
        by (simp add: interpolatePercentile_Fin interpolatePercentile_NInf)
    next
      case PInf
      with xn assms(1) b100 show ?thesis
        by (simp add: interpolatePercentile_NInf interpolatePercentile_PInf)
    next
      case NInf
      with xn assms(1) show ?thesis by (simp add: interpolatePercentile_NInf)
    qed
  qed
qed



lemma cape_table_facts:
  "cape_percentiles \<noteq> []" "strictly_increasing_values cape_percentiles"
  "nondecreasing_pcts cape_percentiles" "pcts_in_range cape_percentiles"
  by (simp_all add: cape_percentiles_def bp_def strictly_increasing_values_def
      nondecreasing_pcts_def pcts_in_range_def)


text \<open>The hypotheses of C6 hold of the CAPE table and the inputs \<open>12.5\<close> and \<open>38.2\<close>.\<close>

theorem interpolatePercentile_monotone_witness:
  "cape_percentiles \<noteq> [] \<and> strictly_increasing_values cape_percentiles \<and>
   nondecreasing_pcts cape_percentiles \<and> pcts_in_range cape_percentiles \<and>
   js_le (Fin 12.5) (Fin 38.2) \<and>
   (\<exists>p q. interpolatePercentile (Fin 12.5) cape_percentiles = Inr (Fin (of_int p)) \<and>
          interpolatePercentile (Fin 38.2) cape_percentiles = Inr (Fin (of_int q)) \<and> p \<le> q)"
proof -
  have le: "js_le (Fin 12.5) (Fin 38.2)" by simp
  from interpolatePercentile_monotone [OF cape_table_facts le] cape_table_facts le
  show ?thesis by simp
qed


section \<open>Facts about the endpoints\<close>

text \<open>Unfolding the endpoints on concrete inputs.\<close>

lemmas endpoint_defs = indicators_endpoint_def indicators_try_def fetchShillerData_def isCacheValid_def
  initial_cache_def empty_entry_def sample_world_def sample_fred_def credit_down_fred_def ob_def
  indicator_requests_def try_then_def cape_getPercentile_def buffett_getPercentile_def
  creditSpread_getPercentile_def interpolatePercentile_def cape_percentiles_def
  buffett_percentiles_def creditSpread_percentiles_def bp_def js_ge_def js_sub_def
  interpolate_loop.simps json_def static_indicators_def static_shiller_def Let_def
  SHILLER_URL_def

lemma interpolatePercentile_returns:
  "t \<noteq> [] \<Longrightarrow> \<exists>p. interpolatePercentile v t = Inr p"
  by (simp add: interpolatePercentile_def)

lemma getPercentile_returns:
  "\<exists>p. cape_getPercentile v = Inr p"
  "\<exists>p. buffett_getPercentile v = Inr p"
  "\<exists>p. creditSpread_getPercentile v = Inr p"
  by (simp_all add: cape_getPercentile_def buffett_getPercentile_def
      creditSpread_getPercentile_def interpolatePercentile_returns cape_percentiles_def
      buffett_percentiles_def creditSpread_percentiles_def)

lemma json_inject: "json x = json y \<longleftrightarrow> x = y"
  by (simp add: json_def)

lemma static_not_live: "\<not> i_isLive (static_indicators m t)"
  by (simp add: static_indicators_def)

section \<open>The freshness check\<close>

lemma fetchShillerData_stale_requests:
  "\<not> isCacheValid c (w_before w) shillerData \<Longrightarrow> snd (snd (fetchShillerData c w)) = [SHILLER_URL]"
  by (simp add: fetchShillerData_def Let_def split: shiller_reply.splits option.splits bool.splits)

lemma credit_spread_stale_requests:
  "\<not> isCacheValid c (w_before w) creditSpread \<Longrightarrow>
   snd (snd (credit_spread_endpoint c w)) = [''BAA10Y'']"
  by (simp add: credit_spread_endpoint_def Let_def
      split: fred_reply.splits option.splits list.splits sum.splits bool.splits)

lemma buffett_stale_requests:
  "\<not> isCacheValid c (w_before w) buffett \<Longrightarrow>
   snd (snd (buffett_endpoint c w)) = buffett_requests"
  by (simp add: buffett_endpoint_def Let_def
      split: fred_reply.splits option.splits list.splits sum.splits bool.splits)

lemma cape_stale_requests:
  "\<not> isCacheValid c (w_before w) cape \<Longrightarrow> \<not> isCacheValid c (w_before w) shillerData \<Longrightarrow>
   snd (snd (cape_endpoint c w)) = [SHILLER_URL]"
  using fetchShillerData_stale_requests [of c w]
  by (auto simp add: cape_endpoint_def Let_def
      split: prod.splits option.splits sum.splits bool.splits)

lemma getCurrentData_empty_fetches:
  "cc_data cch = None \<Longrightarrow> snd (snd (getCurrentData cch now built u)) = True"
  by (simp add: getCurrentData_def Let_def)

text \<open>
  Claim C10. \<open>isCacheValid\<close> is false for every key whose entry holds no data,
  whatever the timestamp and the clock. In the initial cache every key is therefore
  not fresh and the health check reports \<open>expired\<close> three times. A request for a key
  whose entry is empty is never answered from the cache: the credit-spread and
  Buffett endpoints issue their FRED requests, the CAPE endpoint (its fetcher keeps
  its own entry) requests the workbook, and \<open>getCurrentData\<close> of the single-cache
  server calls its fetchers.
\<close>

theorem null_entry_never_fresh:
  "(\<not> has_data c k \<longrightarrow> \<not> isCacheValid c now k) \<and>
   \<not> isCacheValid initial_cache now k \<and>
   health initial_cache now =
     \<lparr> hs_cape = ''expired'', hs_buffett = ''expired'', hs_creditSpread = ''expired'' \<rparr> \<and>
   (data (c_creditSpread c) = None \<longrightarrow>
      snd (snd (credit_spread_endpoint c w)) = [''BAA10Y'']) \<and>
   (data (c_buffett c) = None \<longrightarrow>
      snd (snd (buffett_endpoint c w)) = [''BOGZ1LM883164115Q'', ''GDP'']) \<and>
   (data (c_cape c) = None \<and> data (c_shillerData c) = None \<longrightarrow>
      snd (snd (cape_endpoint c w)) = [SHILLER_URL]) \<and>
   (cc_data cch = None \<longrightarrow> snd (snd (getCurrentData cch now built u)) = True)"
proof -
  have init: "\<not> isCacheValid initial_cache t k'" for t k'
    by (cases k') (simp_all add: isCacheValid_def initial_cache_def empty_entry_def)
  have 1: "\<not> has_data c k \<longrightarrow> \<not> isCacheValid c now k"
    by (simp add: isCacheValid_def)
  have 3: "health initial_cache now =
     \<lparr> hs_cape = ''expired'', hs_buffett = ''expired'', hs_creditSpread = ''expired'' \<rparr>"
    by (simp add: health_def valid_or_expired_def init)
  have 4: "data (c_creditSpread c) = None \<longrightarrow>
      snd (snd (credit_spread_endpoint c w)) = [''BAA10Y'']"
    using credit_spread_stale_requests [of c w] by (simp add: isCacheValid_def)
  have 5: "data (c_buffett c) = None \<longrightarrow>
      snd (snd (buffett_endpoint c w)) = [''BOGZ1LM883164115Q'', ''GDP'']"
    using buffett_stale_requests [of c w] by (simp add: isCacheValid_def buffett_requests_def)
  have 6: "data (c_cape c) = None \<and> data (c_shillerData c) = None \<longrightarrow>
      snd (snd (cape_endpoint c w)) = [SHILLER_URL]"
    using cape_stale_requests [of c w] by (simp add: isCacheValid_def)
  have 7: "cc_data cch = None \<longrightarrow> snd (snd (getCurrentData cch now built u)) = True"
    by (simp add: getCurrentData_empty_fetches)
  from 1 init 3 4 5 6 7 show ?thesis by blast
qed

text \<open>C10 on the initial caches of both servers.\<close>

theorem null_entry_never_fresh_witness:
  "\<not> has_data initial_cache cape \<and>
   \<not> isCacheValid initial_cache 1767225600000 cape \<and>
   data (c_creditSpread initial_cache) = None \<and>
   snd (snd (credit_spread_endpoint initial_cache
      (sample_world (ShillerFailed ''timeout'') (sample_fred 75000000)))) = [''BAA10Y''] \<and>
   data (c_buffett initial_cache) = None \<and>
   snd (snd (buffett_endpoint initial_cache
      (sample_world (ShillerFailed ''timeout'') (sample_fred 75000000)))) =
     [''BOGZ1LM883164115Q'', ''GDP''] \<and>
   data (c_cape initial_cache) = None \<and> data (c_shillerData initial_cache) = None \<and>
   snd (snd (cape_endpoint initial_cache
      (sample_world (ShillerFailed ''timeout'') (sample_fred 75000000)))) = [SHILLER_URL] \<and>
   cc_data empty_current_cache = None \<and>
   snd (snd (getCurrentData empty_current_cache 1767225600000 1767225600250 sample_upstream))"
proof -
  have h: "\<not> has_data initial_cache cape" "data (c_creditSpread initial_cache) = None"
    "data (c_buffett initial_cache) = None" "data (c_cape initial_cache) = None"
    "data (c_shillerData initial_cache) = None" "cc_data empty_current_cache = None"
    by (simp_all add: initial_cache_def empty_entry_def empty_current_cache_def)
  from null_entry_never_fresh [where c = initial_cache and k = cape and now = 1767225600000
      and w = "sample_world (ShillerFailed ''timeout'') (sample_fred 75000000)"
      and cch = empty_current_cache and built = 1767225600250 and u = sample_upstream] h
  show ?thesis by simp
qed

section \<open>Serving from the cache\<close>









section \<open>Failure of an upstream call in the composite endpoint\<close>

lemma first_rejection_failed:
  "first_rejection rs = None \<Longrightarrow> r \<in> set rs \<Longrightarrow> failed_call r \<Longrightarrow>
   r = Json None \<or> r = Json (Some [])"
  by (induction rs rule: first_rejection.induct)
     (auto simp add: failed_call_def split: sum.splits elim: first_observation.elims)

lemma indicators_try_failed:
  assumes "s \<in> set indicator_requests" and "failed_call (w_fred w s)"
  shows "\<exists>e. indicators_try sh w = Inl e"
proof (cases "first_rejection (map (w_fred w) indicator_requests)")
  case (Some m)
  then show ?thesis by (simp add: indicators_try_def)
next
  case None
  from assms(1) have "w_fred w s \<in> set (map (w_fred w) indicator_requests)" by simp
  from first_rejection_failed [OF None this assms(2)]
  have bad: "first_observation (w_fred w s) = Inl (TypeError ''Cannot read properties of undefined'')"
    by auto
  from assms(1) have "s = ''BAA10Y'' \<or> s = ''BOGZ1LM883164115Q'' \<or> s = ''GDP'' \<or> s = ''SP500''"
    by (simp add: indicator_requests_def)
  with bad None show ?thesis
    by (auto simp add: indicators_try_def try_then_def Let_def split: sum.splits)
qed

lemma indicators_try_live:
  assumes "indicators_try sh w = Inr p"
  shows "\<exists>mc g. first_observation (w_fred w ''BOGZ1LM883164115Q'') = Inr mc \<and>
           first_observation (w_fred w ''GDP'') = Inr g \<and>
           bf_value (i_buffett p) = Math_round (buffett_ratio mc g) \<and>
           buffett_getPercentile (bf_value (i_buffett p)) = Inr (bf_percentile (i_buffett p)) \<and>
           cape_getPercentile (ToNumber (sh_cape sh)) = Inr (cf_percentile (i_cape p)) \<and>
           bf_isAllTimeHigh (i_buffett p) = js_ge (bf_value (i_buffett p)) (Fin 240) \<and>
           i_score p = Math_round (js_div (js_add (cf_percentile (i_cape p))
                                                  (bf_percentile (i_buffett p))) (Fin 2)) \<and>
           i_isLive p \<and> i_error p = None"
  using assms
  by (auto simp add: indicators_try_def try_then_def Let_def buffett_ratio_def
      split: option.splits sum.splits)

lemma indicators_endpoint_cases:
  obtains (live) sh c1 q p where "fetchShillerData c w = (sh, c1, q)"
      "indicators_try sh w = Inr p"
      "indicators_endpoint c w = (json p, c1, q @ indicator_requests)"
  | (static) sh c1 q e where "fetchShillerData c w = (sh, c1, q)"
      "indicators_try sh w = Inl e"
      "indicators_endpoint c w =
         (json (static_indicators (message e) (w_after w)), c1, q @ indicator_requests)"
proof -
  obtain sh c1 q where f: "fetchShillerData c w = (sh, c1, q)" by (cases "fetchShillerData c w")
  show thesis
  proof (cases "indicators_try sh w")
    case (Inl e)
    with f static show ?thesis by (simp add: indicators_endpoint_def)
  next
    case (Inr p)
    with f live show ?thesis by (simp add: indicators_endpoint_def)
  qed
qed

lemma indicators_endpoint_static_if_failed:
  assumes "s \<in> set indicator_requests" and "failed_call (w_fred w s)"
  shows "\<exists>m. fst (indicators_endpoint c w) = json (static_indicators m (w_after w))"
proof (cases rule: indicators_endpoint_cases [of c w])
  case (live sh c1 q p)
  with indicators_try_failed [OF assms, of sh] show ?thesis by simp
next
  case (static sh c1 q e)
  then show ?thesis by auto
qed

text \<open>
  Claim C1, as amended. \<open>/api/indicators\<close> answers every request with status 200
  and a payload, never with an error; when any of its four FRED calls rejects or
  returns no observation, the payload is the static snapshot with \<open>isLive: false\<close>
  and the error message.
\<close>

theorem indicators_endpoint_always_succeeds:
  "res_status (fst (indicators_endpoint c w)) = 200 \<and>
   (\<exists>p. res_body (fst (indicators_endpoint c w)) = Result p) \<and>
   (s \<in> set indicator_requests \<and> failed_call (w_fred w s) \<longrightarrow>
      (\<exists>m. fst (indicators_endpoint c w) = json (static_indicators m (w_after w))))"
proof -
  have "res_status (fst (indicators_endpoint c w)) = 200 \<and>
        (\<exists>p. res_body (fst (indicators_endpoint c w)) = Result p)"
    by (cases rule: indicators_endpoint_cases [of c w]) (simp_all add: json_def)
  with indicators_endpoint_static_if_failed [of s w c] show ?thesis by blast
qed

text \<open>
  Claim C1 as stated fails: with the Shiller download failing and nothing cached for
  it, while FRED answers, the response is not the static snapshot: it is marked live,
  carries no error, and its CAPE is the fallback \<open>38.2\<close> of \<open>fetchShillerData\<close>.
\<close>

theorem indicators_endpoint_shiller_failure_counterexample:
  "w_shiller (sample_world (ShillerFailed ''timeout'') (sample_fred 75000000)) =
     ShillerFailed ''timeout'' \<and>
   data (c_shillerData initial_cache) = None \<and>
   fst (indicators_endpoint initial_cache
          (sample_world (ShillerFailed ''timeout'') (sample_fred 75000000))) =
     \<lparr> res_status = 200,
       res_body = Result
         \<lparr> i_score = Fin 99,
           i_sp500 = \<lparr> sp_value = Fin 6900, sp_date = Some ''2025-12-30'',
                       sp_timestamp = ''2025-12-30 close'',
                       sp_source = ''FRED/S&P Dow Jones'' \<rparr>,
           i_cape = \<lparr> cf_value = Some (Fin 38.2), cf_percentile = Fin 97,
                      cf_date = Some ''fallback'', cf_source = ''Shiller/Yale'' \<rparr>,
           i_buffett = \<lparr> bf_value = Fin 250, bf_percentile = Fin 100,
                         bf_date = Some ''2025-07-01'', bf_isAllTimeHigh = True \<rparr>,
           i_creditSpread = \<lparr> cs_value = Fin 1.76, cs_percentile = Fin 25,
                              cs_date = Some ''2025-12-30'' \<rparr>,
           i_isLive = True, i_error = None, i_updatedAt = 1767225600250 \<rparr> \<rparr>"
  by (simp add: endpoint_defs)

text \<open>The amended C1 with the credit-spread call rejecting.\<close>

theorem indicators_endpoint_always_succeeds_witness:
  "''BAA10Y'' \<in> set indicator_requests \<and>
   failed_call (w_fred (sample_world (Sheet (Some (Fin 30)) (Some ''2025.12''))
                          (credit_down_fred 75000000)) ''BAA10Y'') \<and>
   res_status (fst (indicators_endpoint initial_cache
      (sample_world (Sheet (Some (Fin 30)) (Some ''2025.12'')) (credit_down_fred 75000000)))) = 200 \<and>
   fst (indicators_endpoint initial_cache
      (sample_world (Sheet (Some (Fin 30)) (Some ''2025.12'')) (credit_down_fred 75000000))) =
     json (static_indicators ''fetch failed'' 1767225600250)"
proof -
  let ?w = "sample_world (Sheet (Some (Fin 30)) (Some ''2025.12'')) (credit_down_fred 75000000)"
  have h: "''BAA10Y'' \<in> set indicator_requests \<and> failed_call (w_fred ?w ''BAA10Y'')"
    by (simp add: indicator_requests_def failed_call_def sample_world_def credit_down_fred_def)
  have e: "fst (indicators_endpoint initial_cache ?w) =
     json (static_indicators ''fetch failed'' 1767225600250)"
    by (simp add: endpoint_defs)
  from indicators_endpoint_always_succeeds [of initial_cache ?w "''BAA10Y''"] h e
  show ?thesis by simp
qed

lemma getCurrentData_stale:
  assumes "\<not> (cc_data cch \<noteq> None \<and> now - cc_timestamp cch < CACHE_DURATION_current)"
  shows "ri_cape (current_indicators cch now built u) =
           (if cape_truthy (u_cape u) then ToNumber (u_cape u) else Fin 38)"
    and "ri_buffett (current_indicators cch now built u) =
           (case calculateBuffettIndicator (u_wilshire u) (u_gdp u) of
              Some b \<Rightarrow> bc_value b | None \<Rightarrow> Fin 200)"
    and "ri_sp500 (current_indicators cch now built u) =
           (case u_sp500Yahoo u of Some q \<Rightarrow> q_price q | None \<Rightarrow> None)"
    and "u_baa10y u = None \<or> u_baa10y u = Some [] \<Longrightarrow>
         ri_creditSpread (current_indicators cch now built u) = Fin 1.8"
  using assms
  by (auto simp add: current_indicators_def getCurrentData_def Let_def split: option.splits bool.splits)

text \<open>
  Claim C2, as amended. In \<open>/api/indicators\<close> a failed credit-spread call replaces
  the whole response by the static snapshot, every indicator field included. Only
  \<open>getCurrentData\<close> of the single-cache server, which reports raw values without
  percentiles or score, treats the sources independently: when it fetches and the
  credit-spread series is missing or empty, the credit spread is \<open>1.8\<close> while CAPE
  and the Buffett value are those of their own sources.
\<close>

theorem credit_failure_degrades_composite_only:
  "(failed_call (w_fred w ''BAA10Y'') \<longrightarrow>
      (\<exists>m. fst (indicators_endpoint c w) = json (static_indicators m (w_after w)))) \<and>
   (\<not> (cc_data cch \<noteq> None \<and> now - cc_timestamp cch < CACHE_DURATION_current) \<and>
    (u_baa10y u = None \<or> u_baa10y u = Some []) \<longrightarrow>
      ri_creditSpread (current_indicators cch now built u) = Fin 1.8 \<and>
      ri_cape (current_indicators cch now built u) =
        (if cape_truthy (u_cape u) then ToNumber (u_cape u) else Fin 38) \<and>
      ri_buffett (current_indicators cch now built u) =
        (case calculateBuffettIndicator (u_wilshire u) (u_gdp u) of
           Some b \<Rightarrow> bc_value b | None \<Rightarrow> Fin 200))"
proof -
  have "''BAA10Y'' \<in> set indicator_requests" by (simp add: indicator_requests_def)
  then have 1: "failed_call (w_fred w ''BAA10Y'') \<longrightarrow>
      (\<exists>m. fst (indicators_endpoint c w) = json (static_indicators m (w_after w)))"
    using indicators_endpoint_static_if_failed [of "''BAA10Y''" w c] by blast
  from 1 getCurrentData_stale [where cch = cch and now = now and built = built and u = u]
  show ?thesis by simp
qed

text \<open>
  Claim C2 as stated fails: the credit-spread call rejects while CAPE \<open>30\<close>
  (percentile \<open>90\<close>) and a Buffett value \<open>250\<close> are fetched, and the response carries
  the static CAPE and Buffett fields, not the fetched ones.
\<close>

theorem credit_failure_counterexample:
  "w_fred (sample_world (Sheet (Some (Fin 30)) (Some ''2025.12'')) (credit_down_fred 75000000))
      ''BAA10Y'' = FetchFailed ''fetch failed'' \<and>
   cape_getPercentile (Fin 30) = Inr (Fin 90) \<and>
   buffett_getPercentile (Fin 250) = Inr (Fin 100) \<and>
   fst (indicators_endpoint initial_cache
          (sample_world (Sheet (Some (Fin 30)) (Some ''2025.12'')) (credit_down_fred 75000000))) =
     \<lparr> res_status = 200,
       res_body = Result
         \<lparr> i_score = Fin 99,
           i_sp500 = \<lparr> sp_value = Fin 6845.50, sp_date = None,
                       sp_timestamp = ''Dec 31 close'', sp_source = ''static'' \<rparr>,
           i_cape = \<lparr> cf_value = Some (Fin 39.4), cf_percentile = Fin 98, cf_date = None,
                      cf_source = ''static'' \<rparr>,
           i_buffett = \<lparr> bf_value = Fin 244, bf_percentile = Fin 100, bf_date = None,
                         bf_isAllTimeHigh = True \<rparr>,
           i_creditSpread = \<lparr> cs_value = Fin 1.69, cs_percentile = Fin 19, cs_date = None \<rparr>,
           i_isLive = False, i_error = Some ''fetch failed'',
           i_updatedAt = 1767225600250 \<rparr> \<rparr>"
  by (simp add: endpoint_defs)

text \<open>The amended C2 on the same world and on fetcher results without credit spread.\<close>

theorem credit_failure_degrades_composite_only_witness:
  "failed_call (w_fred (sample_world (Sheet (Some (Fin 30)) (Some ''2025.12''))
                          (credit_down_fred 75000000)) ''BAA10Y'') \<and>
   fst (indicators_endpoint initial_cache
          (sample_world (Sheet (Some (Fin 30)) (Some ''2025.12'')) (credit_down_fred 75000000))) =
     json (static_indicators ''fetch failed'' 1767225600250) \<and>
   cc_data empty_current_cache = None \<and> u_baa10y sample_upstream = None \<and>
   ri_creditSpread (current_indicators empty_current_cache 1767225600000 1767225600250
                      sample_upstream) = Fin 1.8 \<and>
   ri_cape (current_indicators empty_current_cache 1767225600000 1767225600250
              sample_upstream) = Fin 40 \<and>
   ri_buffett (current_indicators empty_current_cache 1767225600000 1767225600250
                 sample_upstream) = Fin 210"
proof -
  let ?w = "sample_world (Sheet (Some (Fin 30)) (Some ''2025.12'')) (credit_down_fred 75000000)"
  have h: "failed_call (w_fred ?w ''BAA10Y'')"
    by (simp add: failed_call_def sample_world_def credit_down_fred_def)
  have e: "fst (indicators_endpoint initial_cache ?w) =
     json (static_indicators ''fetch failed'' 1767225600250)"
    by (simp add: endpoint_defs)
  have k: "\<not> (cc_data empty_current_cache \<noteq> None \<and>
       1767225600000 - cc_timestamp empty_current_cache < CACHE_DURATION_current)"
    "u_baa10y sample_upstream = None" "cc_data empty_current_cache = None"
    by (simp_all add: empty_current_cache_def sample_upstream_def)
  have v: "cape_truthy (u_cape sample_upstream)" "ToNumber (u_cape sample_upstream) = Fin 40"
    "calculateBuffettIndicator (u_wilshire sample_upstream) (u_gdp sample_upstream) =
       Some \<lparr> bc_value = Fin 210, bc_date = ''2025-12-30'', bc_marketCap = Fin 63000,
              bc_gdp = Fin 30000 \<rparr>"
    by (simp_all add: sample_upstream_def cape_truthy_def calculateBuffettIndicator_def)
  from credit_failure_degrades_composite_only [where w = ?w and c = initial_cache
      and cch = empty_current_cache and now = 1767225600000 and u = sample_upstream
      and built = 1767225600250] h e k v
  show ?thesis by simp
qed

section \<open>Failure of an upstream call in the per-indicator endpoints\<close>

lemma credit_spread_failed:
  assumes "\<not> isCacheValid c (w_before w) creditSpread" and "failed_call (w_fred w ''BAA10Y'')"
  shows "\<exists>m. credit_spread_endpoint c w = (status_500 m, c, [''BAA10Y''])"
  using assms
  by (auto simp add: credit_spread_endpoint_def failed_call_def
      split: fred_reply.splits option.splits list.splits bool.splits)

lemma buffett_failed:
  assumes "\<not> isCacheValid c (w_before w) buffett"
    and "failed_call (w_fred w ''BOGZ1LM883164115Q'') \<or> failed_call (w_fred w ''GDP'')"
  shows "\<exists>m. buffett_endpoint c w = (status_500 m, c, buffett_requests)"
  using assms
  by (auto simp add: buffett_endpoint_def failed_call_def
      split: fred_reply.splits option.splits list.splits bool.splits)

lemma cape_failed:
  assumes "\<not> isCacheValid c (w_before w) cape" and "\<not> isCacheValid c (w_before w) shillerData"
    and "w_shiller w = ShillerFailed m"
  shows "\<exists>r. fst (cape_endpoint c w) = json r \<and>
           (case data (c_shillerData c) of
              Some d \<Rightarrow> cp_value r = sh_cape d \<and> cp_date r = sh_date d \<and>
                         cp_source r = sh_source d
            | None \<Rightarrow> cp_value r = Some (Fin 38.2) \<and> cp_percentile r = Fin 97 \<and>
                       cp_source r = ''static'')"
proof -
  have p: "cape_getPercentile (Fin 38.2) = Inr (Fin 97)"
    by (simp add: cape_getPercentile_def interpolatePercentile_def cape_percentiles_def bp_def
        js_ge_def js_sub_def interpolate_loop.simps)
  show ?thesis
  proof (cases "data (c_shillerData c)")
    case None
    with assms p show ?thesis
      by (auto simp add: cape_endpoint_def fetchShillerData_def static_shiller_def Let_def
          split: option.splits bool.splits)
  next
    case (Some d)
    from getPercentile_returns(1) obtain q where "cape_getPercentile (ToNumber (sh_cape d)) = Inr q"
      by blast
    with Some assms show ?thesis
      by (auto simp add: cape_endpoint_def fetchShillerData_def Let_def
          split: option.splits bool.splits)
  qed
qed

text \<open>
  Claim C3, as amended. When the Shiller download fails, \<open>/api/cape\<close> answers from
  the last cached Shiller data if there is one, however old, and otherwise from the
  static default \<open>38.2\<close> marked \<open>source: "static"\<close> (percentile \<open>97\<close>). When the FRED
  call of \<open>/api/credit-spread\<close>, or one of the two of \<open>/api/buffett\<close>, fails and the
  entry is not fresh, the endpoint answers with status 500 and an error message and
  leaves the cache as it is.
\<close>

theorem fallback_chain_only_for_cape:
  "(\<not> isCacheValid c (w_before w) cape \<and> \<not> isCacheValid c (w_before w) shillerData \<and>
    w_shiller w = ShillerFailed m \<longrightarrow>
      (\<exists>r. fst (cape_endpoint c w) = json r \<and>
           (case data (c_shillerData c) of
              Some d \<Rightarrow> cp_value r = sh_cape d \<and> cp_date r = sh_date d \<and>
                         cp_source r = sh_source d
            | None \<Rightarrow> cp_value r = Some (Fin 38.2) \<and> cp_percentile r = Fin 97 \<and>
                       cp_source r = ''static''))) \<and>
   (\<not> isCacheValid c (w_before w) creditSpread \<and> failed_call (w_fred w ''BAA10Y'') \<longrightarrow>
      (\<exists>e. credit_spread_endpoint c w = (status_500 e, c, [''BAA10Y'']))) \<and>
   (\<not> isCacheValid c (w_before w) buffett \<and>
    (failed_call (w_fred w ''BOGZ1LM883164115Q'') \<or> failed_call (w_fred w ''GDP'')) \<longrightarrow>
      (\<exists>e. buffett_endpoint c w = (status_500 e, c, [''BOGZ1LM883164115Q'', ''GDP''])))"
  using cape_failed [of c w m] credit_spread_failed [of c w] buffett_failed [of c w]
  by (simp add: buffett_requests_def)

text \<open>
  Claim C3 as stated fails: with the FRED call rejecting, \<open>/api/credit-spread\<close>
  answers with status 500, both on the empty cache and on a cache holding a stale
  value for the key.
\<close>

theorem credit_spread_error_counterexample:
  "w_fred (sample_world (ShillerFailed ''timeout'') (credit_down_fred 75000000)) ''BAA10Y'' =
     FetchFailed ''fetch failed'' \<and>
   credit_spread_endpoint initial_cache
       (sample_world (ShillerFailed ''timeout'') (credit_down_fred 75000000)) =
     (\<lparr> res_status = 500, res_body = ErrorJson ''fetch failed'' \<rparr>, initial_cache, [''BAA10Y'']) \<and>
   data (c_creditSpread stale_credit_cache) =
     Some \<lparr> cr_value = Fin 1.76, cr_percentile = Fin 25, cr_date = ''2025-11-28'',
            cr_updatedAt = 1764547200000 \<rparr> \<and>
   credit_spread_endpoint stale_credit_cache
       (sample_world (ShillerFailed ''timeout'') (credit_down_fred 75000000)) =
     (\<lparr> res_status = 500, res_body = ErrorJson ''fetch failed'' \<rparr>, stale_credit_cache,
      [''BAA10Y''])"
  by (simp add: credit_spread_endpoint_def isCacheValid_def stale_credit_cache_def
      initial_cache_def empty_entry_def sample_world_def credit_down_fred_def status_500_def)

text \<open>The amended C3 on the initial cache with both upstreams down.\<close>

theorem fallback_chain_only_for_cape_witness:
  "\<not> isCacheValid initial_cache
       (w_before (sample_world (ShillerFailed ''timeout'') (credit_down_fred 75000000))) cape \<and>
   \<not> isCacheValid initial_cache
       (w_before (sample_world (ShillerFailed ''timeout'') (credit_down_fred 75000000)))
       shillerData \<and>
   \<not> isCacheValid initial_cache
       (w_before (sample_world (ShillerFailed ''timeout'') (credit_down_fred 75000000)))
       creditSpread \<and>
   failed_call (w_fred (sample_world (ShillerFailed ''timeout'') (credit_down_fred 75000000))
                  ''BAA10Y'') \<and>
   fst (cape_endpoint initial_cache
          (sample_world (ShillerFailed ''timeout'') (credit_down_fred 75000000))) =
     json \<lparr> cp_value = Some (Fin 38.2), cp_percentile = Fin 97, cp_date = Some ''fallback'',
            cp_source = ''static'', cp_updatedAt = 1767225600250 \<rparr> \<and>
   fst (credit_spread_endpoint initial_cache
          (sample_world (ShillerFailed ''timeout'') (credit_down_fred 75000000))) =
     status_500 ''fetch failed''"
proof -
  let ?w = "sample_world (ShillerFailed ''timeout'') (credit_down_fred 75000000)"
  have h: "\<not> isCacheValid initial_cache (w_before ?w) cape"
    "\<not> isCacheValid initial_cache (w_before ?w) shillerData"
    "\<not> isCacheValid initial_cache (w_before ?w) creditSpread"
    "w_shiller ?w = ShillerFailed ''timeout''"
    "failed_call (w_fred ?w ''BAA10Y'')"
    by (simp_all add: isCacheValid_def initial_cache_def empty_entry_def sample_world_def
        failed_call_def credit_down_fred_def)
  have e: "fst (cape_endpoint initial_cache ?w) =
     json \<lparr> cp_value = Some (Fin 38.2), cp_percentile = Fin 97, cp_date = Some ''fallback'',
            cp_source = ''static'', cp_updatedAt = 1767225600250 \<rparr>"
    "fst (credit_spread_endpoint initial_cache ?w) = status_500 ''fetch failed''"
    by (simp_all add: cape_endpoint_def credit_spread_endpoint_def endpoint_defs)
  from fallback_chain_only_for_cape [of initial_cache ?w "''timeout''"] h e
  show ?thesis by simp
qed

section \<open>The composite score\<close>

lemma indicators_endpoint_live:
  assumes "fst (indicators_endpoint c w) = json p" and "i_isLive p"
  shows "indicators_try (fst (fetchShillerData c w)) w = Inr p"
proof (cases rule: indicators_endpoint_cases [of c w])
  case (live sh c1 q p')
  with assms(1) show ?thesis by (simp add: json_inject)
next
  case (static sh c1 q e)
  with assms show ?thesis by (auto simp add: json_inject static_not_live)
qed

lemma fetchShillerData_cape_same:
  "w_shiller w' = w_shiller w \<Longrightarrow> w_before w' = w_before w \<Longrightarrow>
   sh_cape (fst (fetchShillerData c w')) = sh_cape (fst (fetchShillerData c w))"
  by (simp add: fetchShillerData_def Let_def static_shiller_def
      split: shiller_reply.splits option.splits bool.splits)

lemma live_score_determined:
  assumes "indicators_try sh w = Inr p" and "indicators_try sh' w' = Inr p'"
    and "sh_cape sh' = sh_cape sh"
    and "w_fred w' ''BOGZ1LM883164115Q'' = w_fred w ''BOGZ1LM883164115Q''"
    and "w_fred w' ''GDP'' = w_fred w ''GDP''"
  shows "i_score p' = i_score p"
proof -
  from indicators_try_live [OF assms(1)] obtain mc g where a:
    "first_observation (w_fred w ''BOGZ1LM883164115Q'') = Inr mc"
    "first_observation (w_fred w ''GDP'') = Inr g"
    "bf_value (i_buffett p) = Math_round (buffett_ratio mc g)"
    "buffett_getPercentile (bf_value (i_buffett p)) = Inr (bf_percentile (i_buffett p))"
    "cape_getPercentile (ToNumber (sh_cape sh)) = Inr (cf_percentile (i_cape p))"
    "i_score p = Math_round (js_div (js_add (cf_percentile (i_cape p))
                                            (bf_percentile (i_buffett p))) (Fin 2))"
    by blast
  from indicators_try_live [OF assms(2)] obtain mc' g' where b:
    "first_observation (w_fred w' ''BOGZ1LM883164115Q'') = Inr mc'"
    "first_observation (w_fred w' ''GDP'') = Inr g'"
    "bf_value (i_buffett p') = Math_round (buffett_ratio mc' g')"
    "buffett_getPercentile (bf_value (i_buffett p')) = Inr (bf_percentile (i_buffett p'))"
    "cape_getPercentile (ToNumber (sh_cape sh')) = Inr (cf_percentile (i_cape p'))"
    "i_score p' = Math_round (js_div (js_add (cf_percentile (i_cape p'))
                                             (bf_percentile (i_buffett p'))) (Fin 2))"
    by blast
  from a(1,2) b(1,2) assms(4,5) have "mc' = mc" "g' = g" by simp_all
  with a b assms(3) show ?thesis by simp
qed

text \<open>
  Claim C4. In every live response of \<open>/api/indicators\<close> the score is
  \<open>Math.round((capePercentile + buffettPercentile) / 2)\<close> of the two percentiles in
  the response. Two live responses to worlds that agree on the Shiller reply and on the
  market-capitalisation and GDP series have the same score, whatever their
  credit-spread and S&P 500 observations are. Percentiles \<open>98\<close> and \<open>100\<close> give \<open>99\<close>.
\<close>

theorem composite_score_is_rounded_mean:
  "(fst (indicators_endpoint c w) = json p \<and> i_isLive p \<longrightarrow>
      i_score p = Math_round (js_div (js_add (cf_percentile (i_cape p))
                                             (bf_percentile (i_buffett p))) (Fin 2))) \<and>
   (fst (indicators_endpoint c w) = json p \<and> i_isLive p \<and>
    fst (indicators_endpoint c w') = json p' \<and> i_isLive p' \<and>
    w_shiller w' = w_shiller w \<and> w_before w' = w_before w \<and>
    w_fred w' ''BOGZ1LM883164115Q'' = w_fred w ''BOGZ1LM883164115Q'' \<and>
    w_fred w' ''GDP'' = w_fred w ''GDP'' \<longrightarrow>
      i_score p' = i_score p) \<and>
   Math_round (js_div (js_add (Fin 98) (Fin 100)) (Fin 2)) = Fin 99"
proof -
  have 1: "i_score p = Math_round (js_div (js_add (cf_percentile (i_cape p))
                                             (bf_percentile (i_buffett p))) (Fin 2))"
    if "fst (indicators_endpoint c w) = json p" "i_isLive p"
    using indicators_try_live [OF indicators_endpoint_live [OF that]] by blast
  have 2: "i_score p' = i_score p"
    if "fst (indicators_endpoint c w) = json p" "i_isLive p"
      "fst (indicators_endpoint c w') = json p'" "i_isLive p'"
      "w_shiller w' = w_shiller w" "w_before w' = w_before w"
      "w_fred w' ''BOGZ1LM883164115Q'' = w_fred w ''BOGZ1LM883164115Q''"
      "w_fred w' ''GDP'' = w_fred w ''GDP''"
    using live_score_determined [OF indicators_endpoint_live [OF that(1,2)]
        indicators_endpoint_live [OF that(3,4)] fetchShillerData_cape_same [OF that(5,6)] that(7,8)] .
  have 3: "Math_round (js_div (js_add (Fin 98) (Fin 100)) (Fin 2)) = Fin 99" by simp
  from 1 2 3 show ?thesis by blast
qed

text \<open>
  C4 on two worlds with CAPE \<open>40\<close> and a Buffett value \<open>250\<close> that differ in credit
  spread and S&P 500 level.
\<close>

theorem composite_score_is_rounded_mean_witness:
  "fst (indicators_endpoint initial_cache
          (sample_world (Sheet (Some (Fin 40)) (Some ''2025.12'')) (sample_fred 75000000))) =
     json \<lparr> i_score = Fin 99,
            i_sp500 = \<lparr> sp_value = Fin 6900, sp_date = Some ''2025-12-30'',
                        sp_timestamp = ''2025-12-30 close'',
                        sp_source = ''FRED/S&P Dow Jones'' \<rparr>,
            i_cape = \<lparr> cf_value = Some (Fin 40), cf_percentile = Fin 98,
                       cf_date = Some ''2025.12'', cf_source = ''Shiller/Yale'' \<rparr>,
            i_buffett = \<lparr> bf_value = Fin 250, bf_percentile = Fin 100,
                          bf_date = Some ''2025-07-01'', bf_isAllTimeHigh = True \<rparr>,
            i_creditSpread = \<lparr> cs_value = Fin 1.76, cs_percentile = Fin 25,
                               cs_date = Some ''2025-12-30'' \<rparr>,
            i_isLive = True, i_error = None, i_updatedAt = 1767225600250 \<rparr> \<and>
   fst (indicators_endpoint initial_cache
          (sample_world (Sheet (Some (Fin 40)) (Some ''2025.12'')) (other_fred 75000000))) =
     json \<lparr> i_score = Fin 99,
            i_sp500 = \<lparr> sp_value = Fin 4100, sp_date = Some ''2025-12-31'',
                        sp_timestamp = ''2025-12-31 close'',
                        sp_source = ''FRED/S&P Dow Jones'' \<rparr>,
            i_cape = \<lparr> cf_value = Some (Fin 40), cf_percentile = Fin 98,
                       cf_date = Some ''2025.12'', cf_source = ''Shiller/Yale'' \<rparr>,
            i_buffett = \<lparr> bf_value = Fin 250, bf_percentile = Fin 100,
                          bf_date = Some ''2025-07-01'', bf_isAllTimeHigh = True \<rparr>,
            i_creditSpread = \<lparr> cs_value = Fin 5.2, cs_percentile = Fin 98,
                               cs_date = Some ''2025-12-31'' \<rparr>,
            i_isLive = True, i_error = None, i_updatedAt = 1767225600250 \<rparr>"
proof -
  let ?w = "sample_world (Sheet (Some (Fin 40)) (Some ''2025.12'')) (sample_fred 75000000)"
  let ?w' = "sample_world (Sheet (Some (Fin 40)) (Some ''2025.12'')) (other_fred 75000000)"
  let ?p = "\<lparr> i_score = Fin 99,
            i_sp500 = \<lparr> sp_value = Fin 6900, sp_date = Some ''2025-12-30'',
                        sp_timestamp = ''2025-12-30 close'',
                        sp_source = ''FRED/S&P Dow Jones'' \<rparr>,
            i_cape = \<lparr> cf_value = Some (Fin 40), cf_percentile = Fin 98,
                       cf_date = Some ''2025.12'', cf_source = ''Shiller/Yale'' \<rparr>,
            i_buffett = \<lparr> bf_value = Fin 250, bf_percentile = Fin 100,
                          bf_date = Some ''2025-07-01'', bf_isAllTimeHigh = True \<rparr>,
            i_creditSpread = \<lparr> cs_value = Fin 1.76, cs_percentile = Fin 25,
                               cs_date = Some ''2025-12-30'' \<rparr>,
            i_isLive = True, i_error = None, i_updatedAt = 1767225600250 \<rparr>"
  let ?p' = "\<lparr> i_score = Fin 99,
            i_sp500 = \<lparr> sp_value = Fin 4100, sp_date = Some ''2025-12-31'',
                        sp_timestamp = ''2025-12-31 close'',
                        sp_source = ''FRED/S&P Dow Jones'' \<rparr>,
            i_cape = \<lparr> cf_value = Some (Fin 40), cf_percentile = Fin 98,
                       cf_date = Some ''2025.12'', cf_source = ''Shiller/Yale'' \<rparr>,
            i_buffett = \<lparr> bf_value = Fin 250, bf_percentile = Fin 100,
                          bf_date = Some ''2025-07-01'', bf_isAllTimeHigh = True \<rparr>,
            i_creditSpread = \<lparr> cs_value = Fin 5.2, cs_percentile = Fin 98,
                               cs_date = Some ''2025-12-31'' \<rparr>,
            i_isLive = True, i_error = None, i_updatedAt = 1767225600250 \<rparr>"
  have a: "fst (indicators_endpoint initial_cache ?w) = json ?p"
    by (simp add: endpoint_defs)
  have b: "fst (indicators_endpoint initial_cache ?w') = json ?p'"
    by (simp add: endpoint_defs other_fred_def)
  have same: "w_shiller ?w' = w_shiller ?w" "w_before ?w' = w_before ?w"
    "w_fred ?w' ''BOGZ1LM883164115Q'' = w_fred ?w ''BOGZ1LM883164115Q''"
    "w_fred ?w' ''GDP'' = w_fred ?w ''GDP''"
    by (simp_all add: sample_world_def other_fred_def)
  from composite_score_is_rounded_mean [where c = initial_cache and w = ?w and p = ?p
      and w' = ?w' and p' = ?p'] a b same
  show ?thesis by simp
qed

section \<open>The all-time-high flag\<close>





end
